theory Spec2Isabelle
  imports Main
begin

section \<open>Website time tracker: the popup's duration formatting\<close>

text \<open>
  \<^verbatim>\<open>popup.js\<close> renders each persisted total with \<^verbatim>\<open>formatTime(ms)\<close>. The engine only ever
  stores sums of differences of \<^verbatim>\<open>Date.now()\<close> readings, which are integers, so \<open>ms\<close> is an
  \<open>int\<close> here (the JavaScript number is a double; the model covers the integers a double
  holds exactly).
\<close>

subsection \<open>JavaScript string helpers\<close>

text \<open>Decimal rendering of a template-literal hole \<^verbatim>\<open>${n}\<close> for a natural number.\<close>

definition digitChar :: "nat \<Rightarrow> char" where
  "digitChar d = ''0123456789'' ! d"

fun digits :: "nat \<Rightarrow> string" where
  "digits n =
     (if n < 10 then [digitChar n]
      else digits (n div 10) @ [digitChar (n mod 10)])"

declare digits.simps [simp del]

text \<open>\<^verbatim>\<open>${n}\<close> for an integer: a minus sign in front of the digits of a negative one.\<close>

definition toString :: "int \<Rightarrow> string" where
  "toString i = (if i < 0 then CHR ''-'' # digits (nat (- i)) else digits (nat i))"

text \<open>
  The white space \<^verbatim>\<open>String.prototype.trim\<close> removes, as far as one byte can hold it: space,
  tab, line feed, vertical tab, form feed and carriage return.
\<close>

definition isSpace :: "char \<Rightarrow> bool" where
  "isSpace c = (c = CHR '' '' \<or> c = CHR 0x09 \<or> c = CHR 0x0A \<or> c = CHR 0x0B
                \<or> c = CHR 0x0C \<or> c = CHR 0x0D)"

definition trim :: "string \<Rightarrow> string" where
  "trim s = rev (dropWhile isSpace (rev (dropWhile isSpace s)))"

subsection \<open>formatTime\<close>

text \<open>
  \<^verbatim>\<open>
  function formatTime(ms) {
      if (ms < 1000) { return "< 1s"; }
      let seconds = Math.floor(ms / 1000);
      let minutes = Math.floor(seconds / 60);
      let hours = Math.floor(minutes / 60);
      seconds = seconds % 60;
      minutes = minutes % 60;
      let timeString = "";
      if (hours > 0) { timeString += `${hours}h `; }
      if (minutes > 0) { timeString += `${minutes}m `; }
      if (seconds > 0 || timeString === "") { timeString += `${seconds}s`; }
      return timeString.trim();
  }
  \<close>
  The three conditional appends are three steps on the accumulated string, in the
  source's order.
\<close>

definition formatTime :: "int \<Rightarrow> string" where
  "formatTime ms =
     (if ms < 1000 then ''< 1s''
      else
        let seconds0 = ms div 1000;
            minutes0 = seconds0 div 60;
            hours = minutes0 div 60;
            seconds = seconds0 mod 60;
            minutes = minutes0 mod 60;
            timeString0 = [];
            timeString1 = (if hours > 0 then timeString0 @ toString hours @ ''h ''
                           else timeString0);
            timeString2 = (if minutes > 0 then timeString1 @ toString minutes @ ''m ''
                           else timeString1);
            timeString3 = (if seconds > 0 \<or> timeString2 = [] then
                             timeString2 @ toString seconds @ ''s''
                           else timeString2)
        in trim timeString3)"

text \<open>
  The reading of the same function in the words of the specification: a duration of at
  least one second is cut into whole hours, minutes modulo 60 and seconds modulo 60, each
  computed from \<open>ms\<close> directly; the units that are not zero are written as
  \<open>\<langle>n\<rangle>h\<close>, \<open>\<langle>n\<rangle>m\<close>, \<open>\<langle>n\<rangle>s\<close> and joined by single spaces.
\<close>

definition unwords :: "string list \<Rightarrow> string" where
  "unwords ws = (case ws of [] \<Rightarrow> [] | w # rest \<Rightarrow> foldl (\<lambda>acc x. acc @ '' '' @ x) w rest)"

definition spec_units :: "int \<Rightarrow> string list" where
  "spec_units ms =
     (let h = ms div 3600000; m = ms div 60000 mod 60; s = ms div 1000 mod 60
      in (if 0 < h then [toString h @ ''h''] else [])
       @ (if 0 < m then [toString m @ ''m''] else [])
       @ (if 0 < s then [toString s @ ''s''] else []))"

section \<open>The accrual engine (background.js)\<close>

subsection \<open>JavaScript values\<close>

text \<open>
  A value that may be \<^verbatim>\<open>null\<close> or \<^verbatim>\<open>undefined\<close> is an \<open>option\<close>. The source tests such
  values by truthiness: \<^verbatim>\<open>!domain\<close> holds of \<^verbatim>\<open>null\<close> and of the empty string,
  \<^verbatim>\<open>activeTabInfo.startTime\<close> is falsy for \<^verbatim>\<open>null\<close> and for the number \<open>0\<close>.
\<close>

definition truthyString :: "string option \<Rightarrow> bool" where
  "truthyString v = (case v of None \<Rightarrow> False | Some s \<Rightarrow> s \<noteq> [])"

definition truthyNumber :: "int option \<Rightarrow> bool" where
  "truthyNumber v = (case v of None \<Rightarrow> False | Some n \<Rightarrow> n \<noteq> 0)"

text \<open>\<^verbatim>\<open>s.startsWith(p)\<close> and \<^verbatim>\<open>s.includes(sub)\<close> (here \<open>includesStr\<close>); both compare code units exactly.\<close>

definition startsWith :: "string \<Rightarrow> string \<Rightarrow> bool" where
  "startsWith s p = (take (length p) s = p)"

fun includesStr :: "string \<Rightarrow> string \<Rightarrow> bool" where
  "includesStr [] sub = (sub = [])"
| "includesStr (c # cs) sub = (startsWith (c # cs) sub \<or> includesStr cs sub)"

subsection \<open>getDomain\<close>

text \<open>
  \<^verbatim>\<open>new URL(url)\<close> is the platform's URL parser, not code of this repository: it is a
  parameter of the model. It either throws (\<open>None\<close>) or yields an object of which the
  engine reads \<^verbatim>\<open>hostname\<close>; \<^verbatim>\<open>protocol\<close> is the parsed scheme followed by a colon, which the
  parser lower-cases.
\<close>

record parsed_url =
  protocol :: string
  hostname :: string

type_synonym url_parser = "string \<Rightarrow> parsed_url option"

text \<open>
  \<^verbatim>\<open>
  function getDomain(url) {
      if (!url || (!url.startsWith('http:') && !url.startsWith('https:'))) {
          return null;
      }
      try {
          const parsedUrl = new URL(url);
          return parsedUrl.hostname;
      } catch (error) {
          console.error(`Error parsing URL: ${url}`, error);
          return null;
      }
  }
  \<close>
  The only statement that can throw is the constructor call, and the \<^verbatim>\<open>catch\<close> turns it
  into \<^verbatim>\<open>null\<close>.
\<close>

definition getDomain :: "url_parser \<Rightarrow> string option \<Rightarrow> string option" where
  "getDomain parseURL url =
     (case url of
        None \<Rightarrow> None
      | Some u \<Rightarrow>
          if u = [] \<or> (\<not> startsWith u ''http:'' \<and> \<not> startsWith u ''https:'') then None
          else (case parseURL u of
                  Some parsedUrl \<Rightarrow> Some (hostname parsedUrl)
                | None \<Rightarrow> None))"

text \<open>
  A sample of the platform parser for the worked examples: the values \<^verbatim>\<open>new URL(s)\<close> has on
  the listed strings (the scheme is matched without regard to case and lower-cased; a
  special scheme without a host is rejected). Every other string is left unparsed by the
  sample.
\<close>

definition sampleURL :: url_parser where
  "sampleURL = map_of
     [(''https://a.example/x'', \<lparr>protocol = ''https:'', hostname = ''a.example''\<rparr>),
      (''https://b.example/y'', \<lparr>protocol = ''https:'', hostname = ''b.example''\<rparr>),
      (''HTTP://a.example/x'', \<lparr>protocol = ''http:'', hostname = ''a.example''\<rparr>),
      (''ftp://files.example/'', \<lparr>protocol = ''ftp:'', hostname = ''files.example''\<rparr>),
      (''chrome://newtab/'', \<lparr>protocol = ''chrome:'', hostname = ''newtab''\<rparr>),
      (''http://constructor/'', \<lparr>protocol = ''http:'', hostname = ''constructor''\<rparr>)]"

text \<open>
  What the engine relies on from the parser: a string that begins with \<^verbatim>\<open>http:\<close> or
  \<^verbatim>\<open>https:\<close> is parsed, if at all, with that scheme.
\<close>

definition prefix_gives_scheme :: "url_parser \<Rightarrow> bool" where
  "prefix_gives_scheme parseURL =
     (\<forall>u p. parseURL u = Some p \<longrightarrow>
        (startsWith u ''http:'' \<longrightarrow> protocol p = ''http:'')
      \<and> (startsWith u ''https:'' \<longrightarrow> protocol p = ''https:''))"

subsection \<open>The persisted map\<close>

text \<open>
  The values the engine meets when it reads the store: a number, a string, or an object or
  function, of which the program only ever uses the string it converts to.
\<close>

datatype js_value = Num int | Str string | Obj string

text \<open>Truthiness, as \<^verbatim>\<open>x || 0\<close> tests it.\<close>

definition truthy :: "js_value \<Rightarrow> bool" where
  "truthy v = (case v of Num n \<Rightarrow> n \<noteq> 0 | Str t \<Rightarrow> t \<noteq> [] | Obj t \<Rightarrow> True)"

text \<open>
  \<^verbatim>\<open>x + n\<close> for a number \<open>n\<close>: addition when \<open>x\<close> is a number; otherwise \<open>x\<close> is converted to a
  string and the decimal digits of \<open>n\<close> are appended.
\<close>

definition js_add :: "js_value \<Rightarrow> int \<Rightarrow> js_value" where
  "js_add x n =
     (case x of
        Num a \<Rightarrow> Num (a + n)
      | Str t \<Rightarrow> Str (t @ toString n)
      | Obj t \<Rightarrow> Str (t @ toString n))"

text \<open>
  The members every ordinary object inherits from \<^verbatim>\<open>Object.prototype\<close>, each with the string
  it converts to.
\<close>

definition objectPrototype :: "string \<rightharpoonup> js_value" where
  "objectPrototype = map_of
     [(''constructor'', Obj ''function Object() { [native code] }''),
      (''__proto__'', Obj ''[object Object]''),
      (''hasOwnProperty'', Obj ''function hasOwnProperty() { [native code] }''),
      (''isPrototypeOf'', Obj ''function isPrototypeOf() { [native code] }''),
      (''propertyIsEnumerable'', Obj ''function propertyIsEnumerable() { [native code] }''),
      (''toLocaleString'', Obj ''function toLocaleString() { [native code] }''),
      (''toString'', Obj ''function toString() { [native code] }''),
      (''valueOf'', Obj ''function valueOf() { [native code] }''),
      (''__defineGetter__'', Obj ''function __defineGetter__() { [native code] }''),
      (''__defineSetter__'', Obj ''function __defineSetter__() { [native code] }''),
      (''__lookupGetter__'', Obj ''function __lookupGetter__() { [native code] }''),
      (''__lookupSetter__'', Obj ''function __lookupSetter__() { [native code] }'')]"

text \<open>
  \<^verbatim>\<open>data[key]\<close> on an ordinary object with the own properties \<open>dat\<close>: the own property if
  there is one, else the inherited member, else \<^verbatim>\<open>undefined\<close> (\<open>None\<close>).
\<close>

definition getProperty :: "(string \<rightharpoonup> js_value) \<Rightarrow> string \<Rightarrow> js_value option" where
  "getProperty dat key = (case dat key of Some v \<Rightarrow> Some v | None \<Rightarrow> objectPrototype key)"

text \<open>
  \<^verbatim>\<open>chrome.storage.local\<close> maps a domain to what was stored for it. \<^verbatim>\<open>get(key)\<close> resolves to
  an ordinary object whose only own property is the entry of \<open>key\<close>, if there is one;
  \<^verbatim>\<open>set\<close> writes one entry. Both are promises that may reject; which of them does so during
  one call of \<^verbatim>\<open>updateStoredTime\<close> is an input of the model. A rejected \<^verbatim>\<open>set\<close> writes nothing.
\<close>

type_synonym storage = "string \<rightharpoonup> js_value"

datatype store_fault = NoFault | GetRejects | SetRejects

datatype storage_error = StorageError

definition storage_get ::
  "store_fault \<Rightarrow> storage \<Rightarrow> string \<Rightarrow> storage_error + (string \<rightharpoonup> js_value)" where
  "storage_get flt m key =
     (if flt = GetRejects then Inl StorageError
      else Inr (\<lambda>k. if k = key then m key else None))"

definition storage_set ::
  "store_fault \<Rightarrow> storage \<Rightarrow> string \<Rightarrow> js_value \<Rightarrow> storage_error + storage" where
  "storage_set flt m key v = (if flt = SetRejects then Inl StorageError else Inr (m(key \<mapsto> v)))"

text \<open>The number stored for a domain; an entry that is absent or not a number counts as \<open>0\<close>.\<close>

definition stored_total :: "storage \<Rightarrow> string \<Rightarrow> int" where
  "stored_total m d = (case m d of Some (Num v) \<Rightarrow> v | _ \<Rightarrow> 0)"

text \<open>
  The lookup \<^verbatim>\<open>data[d]\<close> after \<^verbatim>\<open>get(d)\<close> yields a number or \<^verbatim>\<open>undefined\<close>: the entry of \<open>d\<close> is a
  number, or there is none and \<open>d\<close> does not name an inherited member.
\<close>

definition reads_number :: "storage \<Rightarrow> string \<Rightarrow> bool" where
  "reads_number m d =
     (case m d of
        Some (Num v) \<Rightarrow> True
      | Some _ \<Rightarrow> False
      | None \<Rightarrow> objectPrototype d = None)"

text \<open>
  \<^verbatim>\<open>
  async function updateStoredTime(domain, timeSpentMs) {
      if (!domain || timeSpentMs <= 0) { return; }
      try {
          const data = await chrome.storage.local.get(domain);
          const currentTotalTime = data[domain] || 0; // Default to 0 if not found
          const newTotalTime = currentTotalTime + timeSpentMs;
          await chrome.storage.local.set({ [domain]: newTotalTime });
      } catch (error) {
          console.error(`Error updating storage for domain ${domain}:`, error);
      }
  }
  \<close>
  \<^verbatim>\<open>data[domain] || 0\<close> is \<open>0\<close> when the lookup is \<^verbatim>\<open>undefined\<close> or falsy, and the looked-up
  value otherwise, be it own or inherited.
\<close>

definition updateStoredTime :: "store_fault \<Rightarrow> string option \<Rightarrow> int \<Rightarrow> storage \<Rightarrow> storage" where
  "updateStoredTime flt domainName timeSpentMs m =
     (if \<not> truthyString domainName \<or> timeSpentMs \<le> 0 then m
      else (case domainName of
              None \<Rightarrow> m
            | Some d \<Rightarrow>
                (case storage_get flt m d of
                   Inl error \<Rightarrow> m
                 | Inr dat \<Rightarrow>
                     let currentTotalTime = (case getProperty dat d of
                                               None \<Rightarrow> Num 0
                                             | Some v \<Rightarrow> if truthy v then v else Num 0);
                         newTotalTime = js_add currentTotalTime timeSpentMs
                     in (case storage_set flt m d newTotalTime of
                           Inl error \<Rightarrow> m
                         | Inr m' \<Rightarrow> m'))))"

subsection \<open>The active record and the engine state\<close>

record tab_info =
  tabId :: "int option"
  domain :: "string option"
  startTime :: "int option"

text \<open>The state the handlers share: the global \<^verbatim>\<open>activeTabInfo\<close> and the persisted map.\<close>

record engine =
  activeTabInfo :: tab_info
  storage_local :: storage

definition emptyInfo :: tab_info where
  "emptyInfo = \<lparr>tabId = None, domain = None, startTime = None\<rparr>"

text \<open>
  \<^verbatim>\<open>
  async function stopTrackingCurrentDomain() {
      if (activeTabInfo.domain && activeTabInfo.startTime) {
          const endTime = Date.now();
          const timeSpentMs = endTime - activeTabInfo.startTime;
          await updateStoredTime(activeTabInfo.domain, timeSpentMs);
          activeTabInfo = { tabId: null, domain: null, startTime: null };
      }
  }
  \<close>
  \<open>now\<close> is the reading of \<^verbatim>\<open>Date.now()\<close>. \<^verbatim>\<open>updateStoredTime\<close> catches its own errors, so
  the reset of the record always follows.
\<close>

definition stopTrackingCurrentDomain :: "int \<Rightarrow> store_fault \<Rightarrow> engine \<Rightarrow> engine" where
  "stopTrackingCurrentDomain now flt s =
     (if truthyString (domain (activeTabInfo s)) \<and> truthyNumber (startTime (activeTabInfo s)) then
        (case startTime (activeTabInfo s) of
           None \<Rightarrow> s
         | Some t \<Rightarrow>
             let endTime = now;
                 timeSpentMs = endTime - t
             in \<lparr>activeTabInfo = emptyInfo,
                 storage_local =
                   updateStoredTime flt (domain (activeTabInfo s)) timeSpentMs (storage_local s)\<rparr>)
      else s)"

text \<open>
  \<^verbatim>\<open>
  function startTrackingNewDomain(tabId, domain) {
      if (!domain) return;
      activeTabInfo = { tabId: tabId, domain: domain, startTime: Date.now() };
  }
  \<close>
\<close>

definition startTrackingNewDomain :: "int \<Rightarrow> string option \<Rightarrow> int \<Rightarrow> engine \<Rightarrow> engine" where
  "startTrackingNewDomain tid domainName now s =
     (if \<not> truthyString domainName then s
      else s\<lparr>activeTabInfo := \<lparr>tabId = Some tid, domain = domainName, startTime = Some now\<rparr>\<rparr>)"

subsection \<open>handleTabChange\<close>

text \<open>
  \<^verbatim>\<open>chrome.tabs.get(tabId)\<close> resolves to a tab (the source also guards against no tab at
  all) or rejects with an error whose message the \<^verbatim>\<open>catch\<close> inspects.
\<close>

record tab =
  active :: bool
  url :: "string option"
  status :: string

datatype tab_lookup = Resolved "tab option" | Rejected string

text \<open>
  \<^verbatim>\<open>
  async function handleTabChange(tabId) {
       try {
          const tab = await chrome.tabs.get(tabId);
          if (!tab || !tab.active || !tab.url || tab.status !== 'complete') {
               if(activeTabInfo.tabId === tabId) { await stopTrackingCurrentDomain(); }
               return;
          }
          const newDomain = getDomain(tab.url);
          if (newDomain === activeTabInfo.domain) { return; }
          await stopTrackingCurrentDomain();
          if (newDomain) { startTrackingNewDomain(tabId, newDomain); }
      } catch (error) {
          if (error.message.includes("No tab with id")) {
              if (activeTabInfo.tabId === tabId) { await stopTrackingCurrentDomain(); }
          } else {
              await stopTrackingCurrentDomain();
          }
      }
  }
  \<close>
  One invocation runs to its end before the next starts (sequential event delivery). It
  reads the clock at most twice: \<open>nowStop\<close> inside \<^verbatim>\<open>stopTrackingCurrentDomain\<close> and
  \<open>nowStart\<close>, after the storage calls have been awaited, inside
  \<^verbatim>\<open>startTrackingNewDomain\<close>. Nothing in the \<^verbatim>\<open>try\<close> block throws but the lookup.
\<close>

fun handleTabChange ::
  "url_parser \<Rightarrow> int \<Rightarrow> tab_lookup \<Rightarrow> int \<Rightarrow> int \<Rightarrow> store_fault \<Rightarrow> engine \<Rightarrow> engine" where
  "handleTabChange parseURL tid (Resolved None) nowStop nowStart flt s =
     (if tabId (activeTabInfo s) = Some tid then stopTrackingCurrentDomain nowStop flt s else s)"
| "handleTabChange parseURL tid (Resolved (Some tb)) nowStop nowStart flt s =
     (if \<not> active tb \<or> \<not> truthyString (url tb) \<or> status tb \<noteq> ''complete'' then
        (if tabId (activeTabInfo s) = Some tid then stopTrackingCurrentDomain nowStop flt s else s)
      else
        let newDomain = getDomain parseURL (url tb)
        in if newDomain = domain (activeTabInfo s) then s
           else
             let s1 = stopTrackingCurrentDomain nowStop flt s
             in if truthyString newDomain then startTrackingNewDomain tid newDomain nowStart s1
                else s1)"
| "handleTabChange parseURL tid (Rejected message) nowStop nowStart flt s =
     (if includesStr message ''No tab with id'' then
        (if tabId (activeTabInfo s) = Some tid then stopTrackingCurrentDomain nowStop flt s else s)
      else stopTrackingCurrentDomain nowStop flt s)"

subsection \<open>Sequences of engine operations\<close>

text \<open>
  The operations of the engine with the inputs each one consumes, and a run of a list of
  them from a state, one after the other.
\<close>

datatype operation =
    Flush store_fault "string option" int
  | StopTracking int store_fault
  | StartTracking int "string option" int
  | Reconcile int tab_lookup int int store_fault

fun step :: "url_parser \<Rightarrow> engine \<Rightarrow> operation \<Rightarrow> engine" where
  "step parseURL s (Flush flt domainName ms) =
     s\<lparr>storage_local := updateStoredTime flt domainName ms (storage_local s)\<rparr>"
| "step parseURL s (StopTracking now flt) = stopTrackingCurrentDomain now flt s"
| "step parseURL s (StartTracking tid domainName now) = startTrackingNewDomain tid domainName now s"
| "step parseURL s (Reconcile tid lk nowStop nowStart flt) =
     handleTabChange parseURL tid lk nowStop nowStart flt s"

definition run :: "url_parser \<Rightarrow> engine \<Rightarrow> operation list \<Rightarrow> engine" where
  "run parseURL s ops = foldl (step parseURL) s ops"

subsection \<open>Sample inputs for the worked examples\<close>

text \<open>
  Three focused, fully loaded tabs, the engine as it is when nothing has been persisted yet
  (the record as the source initialises it), and the engine while it tracks
  \<^verbatim>\<open>a.example\<close> in tab 7 since the clock reading \<open>t\<close>.
\<close>

definition tabA :: tab where
  "tabA = \<lparr>active = True, url = Some ''https://a.example/x'', status = ''complete''\<rparr>"

definition tabB :: tab where
  "tabB = \<lparr>active = True, url = Some ''https://b.example/y'', status = ''complete''\<rparr>"

definition tabC :: tab where
  "tabC = \<lparr>active = True, url = Some ''http://constructor/'', status = ''complete''\<rparr>"

definition freshEngine :: engine where
  "freshEngine = \<lparr>activeTabInfo = emptyInfo, storage_local = Map.empty\<rparr>"

definition trackingA :: "int \<Rightarrow> engine" where
  "trackingA t =
     \<lparr>activeTabInfo = \<lparr>tabId = Some 7, domain = Some ''a.example'', startTime = Some t\<rparr>,
      storage_local = Map.empty\<rparr>"

section \<open>Properties of formatTime\<close>

subsection \<open>Digits and trimming\<close>

lemma digit_char_not_space: "k < 10 \<Longrightarrow> \<not> isSpace (digitChar k)"
proof -
  assume "k < 10"
  then have "k = 0 \<or> k = 1 \<or> k = 2 \<or> k = 3 \<or> k = 4 \<or> k = 5 \<or> k = 6 \<or> k = 7
    \<or> k = 8 \<or> k = 9" by arith
  then show ?thesis by (elim disjE) (simp_all add: isSpace_def digitChar_def)
qed

lemma digits_nonempty: "digits n \<noteq> []"
  by (subst digits.simps) simp

lemma digits_no_space: "c \<in> set (digits n) \<Longrightarrow> \<not> isSpace c"
proof (induction n arbitrary: c rule: digits.induct)
  case (1 n)
  show ?case
  proof (cases "n < 10")
    case True
    with "1.prems" have "c = digitChar n" by (subst (asm) digits.simps) simp
    with True show ?thesis by (simp add: digit_char_not_space)
  next
    case False
    with "1.prems" have "c \<in> set (digits (n div 10)) \<or> c = digitChar (n mod 10)"
      by (subst (asm) digits.simps) auto
    then show ?thesis
    proof
      assume "c \<in> set (digits (n div 10))"
      with "1.IH" False show ?thesis by blast
    next
      assume "c = digitChar (n mod 10)"
      then show ?thesis by (simp add: digit_char_not_space)
    qed
  qed
qed

lemma hd_digits_not_space: "\<not> isSpace (hd (digits n))"
  using digits_no_space [of "hd (digits n)" n] digits_nonempty [of n] by simp

lemma dropWhile_hd: "s \<noteq> [] \<Longrightarrow> \<not> P (hd s) \<Longrightarrow> dropWhile P s = s"
  by (cases s) simp_all

lemma trim_id: "s \<noteq> [] \<Longrightarrow> \<not> isSpace (hd s) \<Longrightarrow> \<not> isSpace (last s) \<Longrightarrow> trim s = s"
  by (simp add: trim_def dropWhile_hd hd_rev)

lemma trim_trailing_space:
  "s \<noteq> [] \<Longrightarrow> \<not> isSpace (hd s) \<Longrightarrow> \<not> isSpace (last s) \<Longrightarrow> trim (s @ '' '') = s"
  by (simp add: trim_def dropWhile_hd hd_rev isSpace_def)

subsection \<open>The decomposition into units\<close>

lemma div_steps:
  fixes ms :: int
  shows "ms div 1000 div 60 div 60 = ms div 3600000"
    and "ms div 1000 div 60 mod 60 = ms div 60000 mod 60"
proof -
  have a: "ms div 1000 div 60 = ms div 60000"
    using zdiv_zmult2_eq [of 60 ms 1000] by simp
  have b: "ms div 60000 div 60 = ms div 3600000"
    using zdiv_zmult2_eq [of 60 ms 60000] by simp
  show "ms div 1000 div 60 div 60 = ms div 3600000" by (simp only: a b)
  show "ms div 1000 div 60 mod 60 = ms div 60000 mod 60" by (simp only: a)
qed

lemma some_unit_positive:
  fixes ms :: int
  assumes "1000 \<le> ms" "ms div 3600000 \<le> 0" "ms div 60000 mod 60 \<le> 0"
  shows "0 < ms div 1000 mod 60"
proof -
  from assms(2) have hour: "ms < 3600000" by arith
  define q where "q = ms div 60000"
  from assms(1) hour have q: "0 \<le> q" "q < 60" unfolding q_def by arith+
  then have "q mod 60 = q" by simp
  with assms(3) q have "q = 0" unfolding q_def by simp
  then have minute: "ms < 60000" unfolding q_def by arith
  define r where "r = ms div 1000"
  from assms(1) minute have r: "1 \<le> r" "r < 60" unfolding r_def by arith+
  then have "r mod 60 = r" by simp
  with r show ?thesis unfolding r_def by simp
qed

lemma toString_nonneg: "0 \<le> i \<Longrightarrow> toString i = digits (nat i)"
  by (simp add: toString_def)

lemma formatTime_unfold:
  assumes "1000 \<le> ms"
  shows "formatTime ms =
    (let h = ms div 3600000; m = ms div 60000 mod 60; s = ms div 1000 mod 60;
         t1 = (if 0 < h then toString h @ ''h '' else []);
         t2 = (if 0 < m then t1 @ toString m @ ''m '' else t1);
         t3 = (if 0 < s \<or> t2 = [] then t2 @ toString s @ ''s'' else t2)
     in trim t3)"
proof -
  from assms have "\<not> ms < 1000" by simp
  then have "formatTime ms =
        (let seconds0 = ms div 1000;
            minutes0 = seconds0 div 60;
            hours = minutes0 div 60;
            seconds = seconds0 mod 60;
            minutes = minutes0 mod 60;
            timeString0 = [];
            timeString1 = (if hours > 0 then timeString0 @ toString hours @ ''h ''
                           else timeString0);
            timeString2 = (if minutes > 0 then timeString1 @ toString minutes @ ''m ''
                           else timeString1);
            timeString3 = (if seconds > 0 \<or> timeString2 = [] then
                             timeString2 @ toString seconds @ ''s''
                           else timeString2)
        in trim timeString3)"
    unfolding formatTime_def by (rule if_not_P)
  then show ?thesis
    unfolding Let_def div_steps append_Nil .
qed

lemma build_cases:
  fixes h m s :: int
  assumes "0 \<le> h" "0 \<le> m" "0 \<le> s" "h \<le> 0 \<Longrightarrow> m \<le> 0 \<Longrightarrow> 0 < s"
  shows "(let t1 = (if 0 < h then toString h @ ''h '' else []);
         t2 = (if 0 < m then t1 @ toString m @ ''m '' else t1);
         t3 = (if 0 < s \<or> t2 = [] then t2 @ toString s @ ''s'' else t2)
     in t3) = (if 0 < h then digits (nat h) @ ''h '' else [])
        @ (if 0 < m then digits (nat m) @ ''m '' else [])
        @ (if 0 < s then digits (nat s) @ ''s'' else [])"
  using assms by (auto simp: Let_def toString_nonneg)

lemma trim_build:
  fixes h m s :: int
  assumes "0 \<le> h" "0 \<le> m" "0 \<le> s" "h \<le> 0 \<Longrightarrow> m \<le> 0 \<Longrightarrow> 0 < s"
  shows "trim ((if 0 < h then digits (nat h) @ ''h '' else [])
        @ (if 0 < m then digits (nat m) @ ''m '' else [])
        @ (if 0 < s then digits (nat s) @ ''s'' else []))
     = unwords ((if 0 < h then [toString h @ ''h''] else [])
       @ (if 0 < m then [toString m @ ''m''] else [])
       @ (if 0 < s then [toString s @ ''s''] else []))"
proof -
  have sp: "\<not> isSpace (CHR ''h'')" "\<not> isSpace (CHR ''m'')" "\<not> isSpace (CHR ''s'')"
    by (simp_all add: isSpace_def)
  have one: "\<And>n u. \<not> isSpace u \<Longrightarrow> trim (digits n @ [u]) = digits n @ [u]"
    by (rule trim_id) (simp_all add: digits_nonempty hd_digits_not_space)
  have one_sp: "\<And>n u. \<not> isSpace u \<Longrightarrow> trim (digits n @ [u, CHR '' '']) = digits n @ [u]"
    using trim_trailing_space [of "digits n @ [u]" for n u]
    by (simp add: digits_nonempty hd_digits_not_space)
  have two: "\<And>a u b v. \<not> isSpace v \<Longrightarrow>
      trim (digits a @ u # CHR '' '' # digits b @ [v]) = digits a @ u # CHR '' '' # digits b @ [v]"
    by (rule trim_id) (simp_all add: digits_nonempty hd_digits_not_space)
  have two_sp: "\<And>a u b v. \<not> isSpace v \<Longrightarrow>
      trim (digits a @ u # CHR '' '' # digits b @ [v, CHR '' '']) = digits a @ u # CHR '' '' # digits b @ [v]"
    using trim_trailing_space [of "digits a @ u # CHR '' '' # digits b @ [v]" for a u b v]
    by (simp add: digits_nonempty hd_digits_not_space)
  have three: "\<And>a u b v c w. \<not> isSpace w \<Longrightarrow>
      trim (digits a @ u # CHR '' '' # digits b @ v # CHR '' '' # digits c @ [w])
        = digits a @ u # CHR '' '' # digits b @ v # CHR '' '' # digits c @ [w]"
    by (rule trim_id) (simp_all add: digits_nonempty hd_digits_not_space)
  show ?thesis
    using assms
    by (auto simp: unwords_def toString_nonneg sp one one_sp two two_sp three)
qed

lemma formatTime_units:
  assumes "1000 \<le> ms"
  shows "formatTime ms = unwords (spec_units ms)"
proof -
  define h where "h = ms div 3600000"
  define m where "m = ms div 60000 mod 60"
  define s where "s = ms div 1000 mod 60"
  from assms have nn: "0 \<le> h" "0 \<le> m" "0 \<le> s"
    unfolding h_def m_def s_def by simp_all
  have pos: "h \<le> 0 \<Longrightarrow> m \<le> 0 \<Longrightarrow> 0 < s"
    unfolding h_def m_def s_def using some_unit_positive [OF assms] by simp
  have "formatTime ms =
      trim (if 0 < s \<or> (if 0 < m then (if 0 < h then toString h @ ''h '' else []) @ toString m @ ''m ''
                          else (if 0 < h then toString h @ ''h '' else [])) = []
            then (if 0 < m then (if 0 < h then toString h @ ''h '' else []) @ toString m @ ''m ''
                  else (if 0 < h then toString h @ ''h '' else [])) @ toString s @ ''s''
            else (if 0 < m then (if 0 < h then toString h @ ''h '' else []) @ toString m @ ''m ''
                  else (if 0 < h then toString h @ ''h '' else [])))"
    using formatTime_unfold [OF assms] unfolding Let_def h_def m_def s_def .
  also have "\<dots> = trim ((if 0 < h then digits (nat h) @ ''h '' else [])
        @ (if 0 < m then digits (nat m) @ ''m '' else [])
        @ (if 0 < s then digits (nat s) @ ''s'' else []))"
    using build_cases [OF nn pos] unfolding Let_def by simp
  also have "\<dots> = unwords ((if 0 < h then [toString h @ ''h''] else [])
       @ (if 0 < m then [toString m @ ''m''] else [])
       @ (if 0 < s then [toString s @ ''s''] else []))"
    by (rule trim_build [OF nn pos])
  also have "\<dots> = unwords (spec_units ms)"
    unfolding spec_units_def Let_def h_def m_def s_def ..
  finally show ?thesis .
qed

subsection \<open>The stated examples and the general shape\<close>

lemma formatTime_below_second: "ms < 1000 \<Longrightarrow> formatTime ms = ''< 1s''"
  by (simp add: formatTime_def)

lemma formatTime_500: "formatTime 500 = ''< 1s''"
  by (simp add: formatTime_def)

lemma formatTime_61000: "formatTime 61000 = ''1m 1s''"
  by (simp add: formatTime_def Let_def toString_def digits.simps digitChar_def trim_def isSpace_def)

lemma formatTime_3661000: "formatTime 3661000 = ''1h 1m 1s''"
  by (simp add: formatTime_def Let_def toString_def digits.simps digitChar_def trim_def isSpace_def)

text \<open>
  Claim C9. \<^verbatim>\<open>formatTime\<close> maps 500 ms to \<^verbatim>\<open>< 1s\<close>, 61000 ms to \<^verbatim>\<open>1m 1s\<close> and 3661000 ms
  to \<^verbatim>\<open>1h 1m 1s\<close>. Every duration below 1000 ms yields \<^verbatim>\<open>< 1s\<close>, and every larger one is
  decomposed into whole hours, minutes modulo 60 and seconds modulo 60: the result is the
  non-zero units of \<open>spec_units\<close>, joined by single spaces.
\<close>

theorem formatTime_spec:
  "formatTime 500 = ''< 1s'' \<and> formatTime 61000 = ''1m 1s''
   \<and> formatTime 3661000 = ''1h 1m 1s''
   \<and> (\<forall>ms. ms < 1000 \<longrightarrow> formatTime ms = ''< 1s'')
   \<and> (\<forall>ms. 1000 \<le> ms \<longrightarrow> formatTime ms = unwords (spec_units ms))"
proof (intro conjI allI impI)
  show "formatTime 500 = ''< 1s''" by (rule formatTime_500)
  show "formatTime 61000 = ''1m 1s''" by (rule formatTime_61000)
  show "formatTime 3661000 = ''1h 1m 1s''" by (rule formatTime_3661000)
  show "formatTime ms = ''< 1s''" if "ms < 1000" for ms
    using that by (rule formatTime_below_second)
  show "formatTime ms = unwords (spec_units ms)" if "1000 \<le> ms" for ms
    using that by (rule formatTime_units)
qed

theorem formatTime_spec_witness:
  "(999::int) < 1000 \<and> formatTime 999 = ''< 1s''
   \<and> (1000::int) \<le> 7384000 \<and> formatTime 7384000 = ''2h 3m 4s''"
proof -
  note below = formatTime_spec [THEN conjunct2, THEN conjunct2, THEN conjunct2, THEN conjunct1,
      rule_format, of 999]
  note above = formatTime_spec [THEN conjunct2, THEN conjunct2, THEN conjunct2, THEN conjunct2,
      rule_format, of 7384000]
  have "formatTime 999 = ''< 1s''" using below by simp
  moreover have "formatTime 7384000 = ''2h 3m 4s''"
    using above by (simp add: unwords_def spec_units_def Let_def toString_def digits.simps digitChar_def)
  ultimately show ?thesis by simp
qed

subsection \<open>Units of value zero are left out\<close>

lemma minutes_only:
  fixes k :: int
  assumes "1 \<le> k" "k < 60"
  shows "formatTime (60000 * k) = toString k @ ''m''"
proof -
  have ge: "1000 \<le> 60000 * k" using assms by simp
  have h: "60000 * k div 3600000 = 0"
  proof -
    have "60000 * k div (60000 * 60) = k div 60" by (rule div_mult_mult1) simp
    with assms show ?thesis by simp
  qed
  have m: "60000 * k div 60000 mod 60 = k" using assms by simp
  have "60000 * k div 1000 = 60 * k" by simp
  then have s: "60000 * k div 1000 mod 60 = 0" by simp
  from assms have "0 < k" by simp
  then show ?thesis
    unfolding formatTime_units [OF ge] spec_units_def Let_def h m s
    by (simp add: unwords_def)
qed

lemma hours_seconds_only:
  fixes ms :: int
  assumes "0 < ms div 3600000" "ms div 60000 mod 60 = 0" "0 < ms div 1000 mod 60"
  shows "formatTime ms = toString (ms div 3600000) @ ''h '' @ toString (ms div 1000 mod 60) @ ''s''"
proof -
  from assms(1) have "3600000 \<le> ms" by (simp add: pos_imp_zdiv_pos_iff)
  then have ge: "1000 \<le> ms" by simp
  define h where "h = ms div 3600000"
  define s where "s = ms div 1000 mod 60"
  from assms have hs: "0 < h" "0 < s" unfolding h_def s_def by blast+
  have "spec_units ms = (if 0 < h then [toString h @ ''h''] else [])
       @ (if (0::int) < 0 then [toString 0 @ ''m''] else [])
       @ (if 0 < s then [toString s @ ''s''] else [])"
    unfolding spec_units_def Let_def assms(2) h_def s_def ..
  with hs have "spec_units ms = [toString h @ ''h'', toString s @ ''s'']" by simp
  then have "unwords (spec_units ms) = toString h @ ''h '' @ toString s @ ''s''"
    by (simp add: unwords_def)
  then show ?thesis
    unfolding formatTime_units [OF ge] h_def s_def .
qed

text \<open>
  Claim C10. \<^verbatim>\<open>formatTime\<close> leaves out a unit whose value is zero. A positive whole multiple
  \<open>60000 * k\<close> of a minute below one hour is rendered as \<open>k\<close> followed by \<^verbatim>\<open>m\<close>, with no seconds;
  a duration with a positive hour component, a zero minute component and a positive second
  component is rendered as the hours and the seconds, with no minutes.
\<close>

theorem formatTime_omits_zero_units:
  "(\<forall>k. 1 \<le> k \<and> k < 60 \<longrightarrow> formatTime (60000 * k) = toString k @ ''m'')
   \<and> (\<forall>ms. 0 < ms div 3600000 \<and> ms div 60000 mod 60 = 0 \<and> 0 < ms div 1000 mod 60 \<longrightarrow>
          formatTime ms = toString (ms div 3600000) @ ''h '' @ toString (ms div 1000 mod 60) @ ''s'')"
proof (intro conjI allI impI)
  show "formatTime (60000 * k) = toString k @ ''m''" if "1 \<le> k \<and> k < 60" for k
  proof (rule minutes_only)
    from that show "1 \<le> k" by (rule conjunct1)
    from that show "k < 60" by (rule conjunct2)
  qed
  show "formatTime ms = toString (ms div 3600000) @ ''h '' @ toString (ms div 1000 mod 60) @ ''s''"
    if "0 < ms div 3600000 \<and> ms div 60000 mod 60 = 0 \<and> 0 < ms div 1000 mod 60" for ms
  proof (rule hours_seconds_only)
    from that show "0 < ms div 3600000" by (rule conjunct1)
    from that have rest: "ms div 60000 mod 60 = 0 \<and> 0 < ms div 1000 mod 60" by (rule conjunct2)
    from rest show "ms div 60000 mod 60 = 0" by (rule conjunct1)
    from rest show "0 < ms div 1000 mod 60" by (rule conjunct2)
  qed
qed

theorem formatTime_omits_zero_units_witness:
  "formatTime 120000 = ''2m'' \<and> formatTime 3601500 = ''1h 1s''"
proof -
  note minutes = formatTime_omits_zero_units [THEN conjunct1, rule_format, of 2]
  note hours = formatTime_omits_zero_units [THEN conjunct2, rule_format, of 3601500]
  have "formatTime 120000 = ''2m''"
    using minutes by (simp add: toString_def digits.simps digitChar_def)
  moreover have "formatTime 3601500 = ''1h 1s''"
    using hours by (simp add: toString_def digits.simps digitChar_def)
  ultimately show ?thesis by simp
qed

section \<open>Properties of the accrual engine\<close>

subsection \<open>What one flush and one stop do to the persisted map\<close>

lemma updateStoredTime_noop:
  "\<not> truthyString domainName \<or> timeSpentMs \<le> 0 \<Longrightarrow>
     updateStoredTime flt domainName timeSpentMs m = m"
  by (auto simp: updateStoredTime_def)

lemma updateStoredTime_fault:
  "flt \<noteq> NoFault \<Longrightarrow> updateStoredTime flt domainName timeSpentMs m = m"
  by (cases flt; cases domainName)
     (simp_all add: updateStoredTime_def storage_get_def storage_set_def Let_def)

lemma updateStoredTime_written:
  assumes "d \<noteq> []" "0 < timeSpentMs" "reads_number m d"
  shows "updateStoredTime NoFault (Some d) timeSpentMs m
           = m(d \<mapsto> Num (stored_total m d + timeSpentMs))"
proof (cases "m d")
  case None
  with assms(3) have "objectPrototype d = None" by (simp add: reads_number_def)
  with None assms(1,2) show ?thesis
    by (simp add: updateStoredTime_def truthyString_def storage_get_def storage_set_def
          getProperty_def js_add_def stored_total_def Let_def)
next
  case (Some v)
  with assms(3) obtain n where n: "v = Num n"
    by (cases v) (simp_all add: reads_number_def)
  with Some assms(1,2) show ?thesis
    by (simp add: updateStoredTime_def truthyString_def storage_get_def storage_set_def
          getProperty_def js_add_def truthy_def stored_total_def Let_def)
qed

lemma updateStoredTime_total_mono:
  assumes "reads_number m d"
  shows "stored_total m e \<le> stored_total (updateStoredTime flt (Some d) timeSpentMs m) e"
proof (cases "d \<noteq> [] \<and> 0 < timeSpentMs \<and> flt = NoFault")
  case True
  with updateStoredTime_written [of d timeSpentMs m] assms show ?thesis
    by (simp add: stored_total_def)
next
  case False
  then have "updateStoredTime flt (Some d) timeSpentMs m = m"
    using updateStoredTime_noop [of "Some d" timeSpentMs flt m]
      updateStoredTime_fault [of flt "Some d" timeSpentMs m]
    by (auto simp: truthyString_def)
  then show ?thesis by simp
qed

lemma stopTracking_idle:
  "\<not> (truthyString (domain (activeTabInfo s)) \<and> truthyNumber (startTime (activeTabInfo s))) \<Longrightarrow>
     stopTrackingCurrentDomain now flt s = s"
  by (auto simp: stopTrackingCurrentDomain_def)

lemma stopTracking_active:
  assumes "truthyString (domain (activeTabInfo s))" "startTime (activeTabInfo s) = Some t" "t \<noteq> 0"
  shows "stopTrackingCurrentDomain now flt s =
     \<lparr>activeTabInfo = emptyInfo,
      storage_local = updateStoredTime flt (domain (activeTabInfo s)) (now - t) (storage_local s)\<rparr>"
  using assms by (simp add: stopTrackingCurrentDomain_def truthyNumber_def Let_def)

subsection \<open>Evaluation of the worked examples\<close>

lemmas eval_defs = getDomain_def sampleURL_def startsWith_def truthyString_def truthyNumber_def
  stopTrackingCurrentDomain_def startTrackingNewDomain_def updateStoredTime_def storage_get_def
  storage_set_def getProperty_def objectPrototype_def truthy_def js_add_def stored_total_def
  emptyInfo_def Let_def tabA_def tabB_def tabC_def freshEngine_def trackingA_def run_def
  toString_def digits.simps digitChar_def

subsection \<open>getDomain\<close>

lemma sampleURL_prefix_gives_scheme: "prefix_gives_scheme sampleURL"
  unfolding prefix_gives_scheme_def sampleURL_def
  by (auto simp: startsWith_def split: if_splits)

text \<open>
  Claim C4, as amended. For every string that begins with the lower-case prefix \<^verbatim>\<open>http:\<close> or
  \<^verbatim>\<open>https:\<close> and that the URL parser accepts, \<^verbatim>\<open>getDomain\<close> returns exactly the hostname
  the parser reports.
\<close>

theorem getDomain_hostname:
  assumes "parseURL u = Some p" "startsWith u ''http:'' \<or> startsWith u ''https:''"
  shows "getDomain parseURL (Some u) = Some (hostname p)"
proof -
  from assms(2) have "u \<noteq> []" by (auto simp: startsWith_def)
  with assms show ?thesis by (simp add: getDomain_def)
qed

text \<open>The amended claim at \<^verbatim>\<open>https://a.example/x\<close>.\<close>

theorem getDomain_hostname_witness:
  "sampleURL ''https://a.example/x'' = Some \<lparr>protocol = ''https:'', hostname = ''a.example''\<rparr>
   \<and> startsWith ''https://a.example/x'' ''https:''
   \<and> getDomain sampleURL (Some ''https://a.example/x'') = Some ''a.example''"
proof -
  have p: "sampleURL ''https://a.example/x'' = Some \<lparr>protocol = ''https:'', hostname = ''a.example''\<rparr>"
    by (simp add: sampleURL_def)
  have s: "startsWith ''https://a.example/x'' ''https:''" by (simp add: startsWith_def)
  from s have d: "startsWith ''https://a.example/x'' ''http:'' \<or> startsWith ''https://a.example/x'' ''https:''" ..
  note getDomain_hostname [where parseURL = sampleURL and u = "''https://a.example/x''"
      and p = "\<lparr>protocol = ''https:'', hostname = ''a.example''\<rparr>", OF p d]
  with p s show ?thesis by simp
qed

text \<open>
  The claim as stated, for every valid URL whose scheme is HTTP or HTTPS, fails where the
  scheme is not written in lower case: \<^verbatim>\<open>HTTP://a.example/x\<close> is a valid URL with scheme
  \<^verbatim>\<open>http\<close> and hostname \<^verbatim>\<open>a.example\<close>, and the guard on \<^verbatim>\<open>startsWith\<close> returns \<^verbatim>\<open>null\<close> for it
  before the parser is called.
\<close>

theorem getDomain_uppercase_scheme_counterexample:
  "sampleURL ''HTTP://a.example/x'' = Some \<lparr>protocol = ''http:'', hostname = ''a.example''\<rparr>
   \<and> getDomain sampleURL (Some ''HTTP://a.example/x'') = None"
  by (simp add: getDomain_def sampleURL_def startsWith_def)

text \<open>
  Claim C5. \<^verbatim>\<open>getDomain\<close> returns none for an absent or empty input, for a string the parser
  rejects, for a string that begins with neither \<^verbatim>\<open>http:\<close> nor \<^verbatim>\<open>https:\<close>, and for a URL whose
  parsed scheme is neither HTTP nor HTTPS (the parser reading the scheme off the prefix).
  It has no failing branch: the parser's exception is the \<open>None\<close> of \<open>parseURL\<close>, which the
  \<^verbatim>\<open>catch\<close> maps to none.
\<close>

theorem getDomain_none:
  "getDomain parseURL None = None
   \<and> getDomain parseURL (Some []) = None
   \<and> (parseURL u = None \<longrightarrow> getDomain parseURL (Some u) = None)
   \<and> (\<not> startsWith u ''http:'' \<and> \<not> startsWith u ''https:'' \<longrightarrow> getDomain parseURL (Some u) = None)
   \<and> (prefix_gives_scheme parseURL \<and> parseURL u = Some p
        \<and> protocol p \<noteq> ''http:'' \<and> protocol p \<noteq> ''https:'' \<longrightarrow>
          getDomain parseURL (Some u) = None)"
proof (intro conjI impI)
  show "getDomain parseURL None = None" by (simp add: getDomain_def)
  show "getDomain parseURL (Some []) = None" by (simp add: getDomain_def)
  show "getDomain parseURL (Some u) = None" if "parseURL u = None"
    using that by (simp add: getDomain_def)
  show "getDomain parseURL (Some u) = None"
    if "\<not> startsWith u ''http:'' \<and> \<not> startsWith u ''https:''"
    using that by (simp add: getDomain_def)
  show "getDomain parseURL (Some u) = None"
    if h: "prefix_gives_scheme parseURL \<and> parseURL u = Some p
        \<and> protocol p \<noteq> ''http:'' \<and> protocol p \<noteq> ''https:''"
  proof -
    from h have "\<not> startsWith u ''http:''" "\<not> startsWith u ''https:''"
      unfolding prefix_gives_scheme_def by blast+
    then show ?thesis by (simp add: getDomain_def)
  qed
qed

text \<open>The claim at a malformed URL, at an \<^verbatim>\<open>ftp\<close> URL and at a \<^verbatim>\<open>file\<close> URL.\<close>

theorem getDomain_none_witness:
  "sampleURL ''http://'' = None \<and> getDomain sampleURL (Some ''http://'') = None
   \<and> prefix_gives_scheme sampleURL
   \<and> sampleURL ''ftp://files.example/'' = Some \<lparr>protocol = ''ftp:'', hostname = ''files.example''\<rparr>
   \<and> getDomain sampleURL (Some ''ftp://files.example/'') = None
   \<and> getDomain sampleURL (Some ''file:///home/index.html'') = None"
proof -
  have m: "sampleURL ''http://'' = None" by (simp add: sampleURL_def)
  have f: "sampleURL ''ftp://files.example/'' = Some \<lparr>protocol = ''ftp:'', hostname = ''files.example''\<rparr>"
    by (simp add: sampleURL_def)
  have n: "\<not> startsWith ''file:///home/index.html'' ''http:''
      \<and> \<not> startsWith ''file:///home/index.html'' ''https:''" by (simp add: startsWith_def)
  note malformed = getDomain_none [where parseURL = sampleURL and u = "''http://''",
      THEN conjunct2, THEN conjunct2, THEN conjunct1, rule_format, OF m]
  note other = getDomain_none [where parseURL = sampleURL and u = "''ftp://files.example/''"
      and p = "\<lparr>protocol = ''ftp:'', hostname = ''files.example''\<rparr>",
      THEN conjunct2, THEN conjunct2, THEN conjunct2, THEN conjunct2, rule_format]
  note syntactic = getDomain_none [where parseURL = sampleURL and u = "''file:///home/index.html''",
      THEN conjunct2, THEN conjunct2, THEN conjunct2, THEN conjunct1, rule_format, OF n]
  have "getDomain sampleURL (Some ''ftp://files.example/'') = None"
    by (rule other) (simp add: sampleURL_prefix_gives_scheme f)
  with m f malformed syntactic sampleURL_prefix_gives_scheme show ?thesis by simp
qed

subsection \<open>Flushing and stopping\<close>

text \<open>
  Claim C6. For every domain and every elapsed time less than or equal to zero, and for
  every call with an absent (or empty) domain, \<^verbatim>\<open>updateStoredTime\<close> leaves the persisted map
  as it is, whatever the store would have answered.
\<close>

theorem updateStoredTime_frame:
  "timeSpentMs \<le> 0 \<or> domainName = None \<or> domainName = Some [] \<Longrightarrow>
     updateStoredTime flt domainName timeSpentMs m = m"
  by (rule updateStoredTime_noop) (auto simp: truthyString_def)

text \<open>The claim at elapsed times \<open>0\<close> and \<open>-2000\<close> and at an absent domain.\<close>

theorem updateStoredTime_frame_witness:
  "updateStoredTime NoFault (Some ''a.example'') 0 [''a.example'' \<mapsto> Num 5000] = [''a.example'' \<mapsto> Num 5000]
   \<and> updateStoredTime NoFault (Some ''b.example'') (- 2000) [''a.example'' \<mapsto> Num 5000]
        = [''a.example'' \<mapsto> Num 5000]
   \<and> updateStoredTime NoFault None 3000 [''a.example'' \<mapsto> Num 5000] = [''a.example'' \<mapsto> Num 5000]"
  using updateStoredTime_frame [of 0 "Some ''a.example''" NoFault "[''a.example'' \<mapsto> Num 5000]"]
    updateStoredTime_frame [of "- 2000" "Some ''b.example''" NoFault "[''a.example'' \<mapsto> Num 5000]"]
    updateStoredTime_frame [of 3000 None NoFault "[''a.example'' \<mapsto> Num 5000]"]
  by simp

text \<open>
  Claim C7. With no active record (domain and start time absent)
  \<^verbatim>\<open>stopTrackingCurrentDomain\<close> changes neither the record nor the persisted map, and any
  number of such calls, at any clock readings, leaves the state as one call does.
\<close>

theorem stopTracking_idle_noop:
  assumes "domain (activeTabInfo s) = None" "startTime (activeTabInfo s) = None"
  shows "stopTrackingCurrentDomain now flt s = s
    \<and> foldl (\<lambda>s' (now', flt'). stopTrackingCurrentDomain now' flt' s') s calls = s"
proof
  from assms have idle:
    "\<not> (truthyString (domain (activeTabInfo s)) \<and> truthyNumber (startTime (activeTabInfo s)))"
    by (simp add: truthyString_def)
  then show "stopTrackingCurrentDomain now flt s = s" by (rule stopTracking_idle)
  from idle show "foldl (\<lambda>s' (now', flt'). stopTrackingCurrentDomain now' flt' s') s calls = s"
    by (induction calls) (simp_all add: stopTracking_idle split_beta)
qed

text \<open>The claim at an idle engine holding one entry, for one call and for three.\<close>

theorem stopTracking_idle_noop_witness:
  "stopTrackingCurrentDomain 1000 NoFault
       \<lparr>activeTabInfo = emptyInfo, storage_local = [''a.example'' \<mapsto> Num 5000]\<rparr>
     = \<lparr>activeTabInfo = emptyInfo, storage_local = [''a.example'' \<mapsto> Num 5000]\<rparr>
   \<and> foldl (\<lambda>s' (now', flt'). stopTrackingCurrentDomain now' flt' s')
       \<lparr>activeTabInfo = emptyInfo, storage_local = [''a.example'' \<mapsto> Num 5000]\<rparr>
       [(1000, NoFault), (2000, SetRejects), (3000, NoFault)]
     = \<lparr>activeTabInfo = emptyInfo, storage_local = [''a.example'' \<mapsto> Num 5000]\<rparr>"
  by (rule stopTracking_idle_noop) (simp_all add: emptyInfo_def)

text \<open>
  Claim C8. When \<^verbatim>\<open>stopTrackingCurrentDomain\<close> runs with an active record and the store's
  read or write rejects, the record is still reset to empty, the persisted map is left as
  it was (the update is dropped, nothing is retried), and the call returns normally: the
  engine ends the step idle.
\<close>

theorem stopTracking_store_failure:
  assumes "truthyString (domain (activeTabInfo s))" "truthyNumber (startTime (activeTabInfo s))"
    and "flt = GetRejects \<or> flt = SetRejects"
  shows "stopTrackingCurrentDomain now flt s
           = \<lparr>activeTabInfo = emptyInfo, storage_local = storage_local s\<rparr>"
proof -
  from assms(2) obtain t where t: "startTime (activeTabInfo s) = Some t" "t \<noteq> 0"
    by (auto simp: truthyNumber_def split: option.splits)
  from assms(3) have "flt \<noteq> NoFault" by auto
  then show ?thesis
    by (simp add: stopTracking_active [OF assms(1) t] updateStoredTime_fault)
qed

text \<open>The claim at a rejected write, 5000 ms after tracking began.\<close>

theorem stopTracking_store_failure_witness:
  "stopTrackingCurrentDomain 6000 SetRejects (trackingA 1000)
     = \<lparr>activeTabInfo = emptyInfo, storage_local = Map.empty\<rparr>"
  using stopTracking_store_failure [of "trackingA 1000" SetRejects 6000]
  by (simp add: trackingA_def truthyString_def truthyNumber_def)

subsection \<open>A persisted entry that is not a number\<close>

text \<open>
  Claim C3 says that along every sequence of flush, stop, start and reconcile operations
  every entry of the persisted map is a non-negative number that never decreases. The
  engine does not keep this for a domain that names a member of \<^verbatim>\<open>Object.prototype\<close>.
  Starting with nothing persisted, the focused tab is at \<^verbatim>\<open>http://constructor/\<close> from clock
  reading 1000 and is navigated to \<^verbatim>\<open>b.example\<close> at 6000. There is no entry for
  \<^verbatim>\<open>constructor\<close>, so \<^verbatim>\<open>data[domain]\<close> finds the inherited function instead of defaulting
  to 0, and the entry written is a string.
\<close>

theorem persisted_entry_not_a_number:
  "storage_local
     (run sampleURL freshEngine
        [Reconcile 7 (Resolved (Some tabC)) 1000 1000 NoFault,
         Reconcile 7 (Resolved (Some tabB)) 6000 6000 NoFault])
     ''constructor'' = Some (Str ''function Object() { [native code] }5000'')"
  by (simp add: eval_defs)

subsection \<open>Reconciliation\<close>

text \<open>
  Claim C1, as amended. Let the engine hold an active record (domain \<open>d\<close> present, start time
  \<open>t\<close> not zero), let the store's lookup of \<open>d\<close> yield a number or nothing (\<open>reads_number\<close>),
  and let \<^verbatim>\<open>handleTabChange\<close> observe a focused, fully loaded tab whose domain differs from
  \<open>d\<close>. Then the entry of \<open>d\<close> grows by exactly \<open>nowStop - t\<close> when that is positive and the
  store's read and write succeed, and the persisted map is unchanged otherwise; no other
  entry changes. After that the record is replaced by the new tab, the new domain and
  the clock reading \<open>nowStart\<close> of \<^verbatim>\<open>startTrackingNewDomain\<close> when the new domain is present,
  and by the empty record when it is none.
\<close>

theorem handleTabChange_switch:
  assumes "domain (activeTabInfo s) = Some d" "d \<noteq> []"
    and "startTime (activeTabInfo s) = Some t" "t \<noteq> 0"
    and "active tb" "status tb = ''complete''" "truthyString (url tb)"
    and "getDomain parseURL (url tb) = newDomain" "newDomain \<noteq> Some d"
    and "reads_number (storage_local s) d"
  shows "handleTabChange parseURL tid (Resolved (Some tb)) nowStop nowStart flt s =
     \<lparr>activeTabInfo =
        (if truthyString newDomain
         then \<lparr>tabId = Some tid, domain = newDomain, startTime = Some nowStart\<rparr>
         else emptyInfo),
      storage_local =
        (if 0 < nowStop - t \<and> flt = NoFault
         then (storage_local s)(d \<mapsto> Num (stored_total (storage_local s) d + (nowStop - t)))
         else storage_local s)\<rparr>"
proof -
  from assms(1,2) have tr: "truthyString (domain (activeTabInfo s))"
    by (simp add: truthyString_def)
  have stop: "stopTrackingCurrentDomain nowStop flt s =
     \<lparr>activeTabInfo = emptyInfo,
      storage_local = updateStoredTime flt (Some d) (nowStop - t) (storage_local s)\<rparr>"
    using stopTracking_active [OF tr assms(3,4)] assms(1) by simp
  have upd: "updateStoredTime flt (Some d) (nowStop - t) (storage_local s) =
        (if 0 < nowStop - t \<and> flt = NoFault
         then (storage_local s)(d \<mapsto> Num (stored_total (storage_local s) d + (nowStop - t)))
         else storage_local s)"
  proof (cases "0 < nowStop - t \<and> flt = NoFault")
    case True
    with updateStoredTime_written [OF assms(2) _ assms(10), of "nowStop - t"]
    show ?thesis by simp
  next
    case False
    then have "nowStop - t \<le> 0 \<or> flt \<noteq> NoFault" by auto
    then have "updateStoredTime flt (Some d) (nowStop - t) (storage_local s) = storage_local s"
      using updateStoredTime_noop [of "Some d" "nowStop - t" flt "storage_local s"]
        updateStoredTime_fault [of flt "Some d" "nowStop - t" "storage_local s"] by blast
    moreover from False have
      "(if 0 < nowStop - t \<and> flt = NoFault
         then (storage_local s)(d \<mapsto> Num (stored_total (storage_local s) d + (nowStop - t)))
         else storage_local s) = storage_local s" by (rule if_not_P)
    ultimately show ?thesis by (simp only:)
  qed
  from assms(5-9) show ?thesis
    by (simp add: Let_def assms(1) stop upd startTrackingNewDomain_def)
qed

text \<open>
  The scenario of the claim on a clock that reads 1000 when tracking of \<^verbatim>\<open>a.example\<close> begins:
  navigating the tab to \<^verbatim>\<open>b.example\<close> 5000 ms later adds 5000 to \<^verbatim>\<open>a.example\<close>.
\<close>

theorem handleTabChange_switch_witness:
  "handleTabChange sampleURL 7 (Resolved (Some tabB)) 6000 6000 NoFault (trackingA 1000)
   = \<lparr>activeTabInfo = \<lparr>tabId = Some 7, domain = Some ''b.example'', startTime = Some 6000\<rparr>,
      storage_local = [''a.example'' \<mapsto> Num 5000]\<rparr>"
  using handleTabChange_switch [where s = "trackingA 1000" and d = "''a.example''" and t = 1000
      and tb = tabB and parseURL = sampleURL and newDomain = "Some ''b.example''" and tid = 7
      and nowStop = 6000 and nowStart = 6000 and flt = NoFault]
  by (simp add: trackingA_def tabB_def truthyString_def getDomain_def sampleURL_def
        startsWith_def stored_total_def reads_number_def objectPrototype_def)

text \<open>
  A start time of \<open>0\<close> is falsy in the test \<^verbatim>\<open>activeTabInfo.domain && activeTabInfo.startTime\<close>,
  so a record that was started at clock reading 0 is taken for no record: nothing is
  flushed for it. The amended claim above leaves this case out, as it does the outgoing
  domains whose lookup finds a member of \<^verbatim>\<open>Object.prototype\<close>.
\<close>

lemma handleTabChange_switch_zero_start:
  "handleTabChange sampleURL 7 (Resolved (Some tabB)) 5000 5000 NoFault (trackingA 0)
   = \<lparr>activeTabInfo = \<lparr>tabId = Some 7, domain = Some ''b.example'', startTime = Some 5000\<rparr>,
      storage_local = Map.empty\<rparr>"
  by (simp add: eval_defs)

text \<open>
  The claim as stated, that every such step adds the full elapsed time, fails when the
  store's write rejects: 5000 ms have elapsed and the entry of \<^verbatim>\<open>a.example\<close> stays absent.
\<close>

theorem handleTabChange_switch_counterexample:
  "storage_local
     (handleTabChange sampleURL 7 (Resolved (Some tabB)) 6000 6000 SetRejects (trackingA 1000))
     ''a.example'' = None
   \<and> stored_total (storage_local
        (handleTabChange sampleURL 7 (Resolved (Some tabB)) 6000 6000 SetRejects (trackingA 1000)))
        ''a.example''
      \<noteq> stored_total (storage_local (trackingA 1000)) ''a.example'' + (6000 - 1000)"
  by (simp add: eval_defs)

text \<open>
  Claim C2, as amended. When the tab lookup rejects with a message that does not contain
  \<^verbatim>\<open>No tab with id\<close>, \<^verbatim>\<open>handleTabChange\<close> does exactly what \<^verbatim>\<open>stopTrackingCurrentDomain\<close> does,
  whichever tab was looked up: an active record is flushed and reset even when it belongs
  to another tab.
\<close>

theorem handleTabChange_unexpected_error:
  assumes "\<not> includesStr message ''No tab with id''"
  shows "handleTabChange parseURL tid (Rejected message) nowStop nowStart flt s
           = stopTrackingCurrentDomain nowStop flt s
    \<and> (truthyString (domain (activeTabInfo s)) \<and> truthyNumber (startTime (activeTabInfo s)) \<longrightarrow>
         activeTabInfo (handleTabChange parseURL tid (Rejected message) nowStop nowStart flt s)
           = emptyInfo)"
proof (intro conjI impI)
  from assms
  show eq: "handleTabChange parseURL tid (Rejected message) nowStop nowStart flt s
           = stopTrackingCurrentDomain nowStop flt s" by simp
  assume "truthyString (domain (activeTabInfo s)) \<and> truthyNumber (startTime (activeTabInfo s))"
  then show "activeTabInfo (handleTabChange parseURL tid (Rejected message) nowStop nowStart flt s)
           = emptyInfo"
    unfolding eq
    by (auto simp: stopTrackingCurrentDomain_def truthyNumber_def Let_def split: option.splits)
qed

text \<open>The amended claim while tab 7 is tracked and the lookup of tab 2 fails.\<close>

theorem handleTabChange_unexpected_error_witness:
  "\<not> includesStr ''Extension context invalidated.'' ''No tab with id''
   \<and> handleTabChange sampleURL 2 (Rejected ''Extension context invalidated.'') 6000 6000 NoFault
        (trackingA 1000)
     = \<lparr>activeTabInfo = emptyInfo, storage_local = [''a.example'' \<mapsto> Num 5000]\<rparr>"
proof -
  have n: "\<not> includesStr ''Extension context invalidated.'' ''No tab with id''"
    by (simp add: startsWith_def)
  note handleTabChange_unexpected_error [OF n, where parseURL = sampleURL and tid = 2
      and nowStop = 6000 and nowStart = 6000 and flt = NoFault and s = "trackingA 1000",
      THEN conjunct1]
  moreover have "stopTrackingCurrentDomain 6000 NoFault (trackingA 1000)
     = \<lparr>activeTabInfo = emptyInfo, storage_local = [''a.example'' \<mapsto> Num 5000]\<rparr>"
    by (simp add: eval_defs)
  ultimately show ?thesis using n by simp
qed

text \<open>
  The claim as stated, that a failed lookup of a different tab leaves the record and the
  persisted map unchanged, fails: tab 7 is tracked, the lookup of tab 2 rejects, and both
  the record and the entry of \<^verbatim>\<open>a.example\<close> change.
\<close>

theorem handleTabChange_unexpected_error_counterexample:
  "tabId (activeTabInfo (trackingA 1000)) \<noteq> Some 2
   \<and> activeTabInfo
        (handleTabChange sampleURL 2 (Rejected ''Extension context invalidated.'') 6000 6000 NoFault
          (trackingA 1000)) \<noteq> activeTabInfo (trackingA 1000)
   \<and> storage_local
        (handleTabChange sampleURL 2 (Rejected ''Extension context invalidated.'') 6000 6000 NoFault
          (trackingA 1000)) ''a.example'' \<noteq> storage_local (trackingA 1000) ''a.example''"
  by (simp add: eval_defs startsWith_def)

end
